theory Spec2Isabelle
  imports Complex_Main
begin

section \<open>Python values shared by the pipeline\<close>

text \<open>
  The pipeline of \<^verbatim>\<open>solar_houses_detector.py\<close> is embedded function by function.
  Python \<^verbatim>\<open>int\<close> is \<^typ>\<open>int\<close>; Python \<^verbatim>\<open>float\<close> is idealised as \<^typ>\<open>real\<close>
  (no property below depends on binary rounding); \<^verbatim>\<open>str\<close> is \<^typ>\<open>string\<close>, each
  \<^typ>\<open>char\<close> read as the code point of the same number (0 to 255); \<^verbatim>\<open>None\<close> in an
  optional field is \<^term>\<open>None\<close>. An exception is a value of type \<open>exn\<close>, and a
  computation that may raise returns \<open>exn + 'a\<close> with \<^term>\<open>Inl\<close> for the exception.
\<close>

datatype exn = ZeroDivisionError | IndexError | ValueError | OtherException string

subsection \<open>The \<^verbatim>\<open>random\<close> module\<close>

text \<open>
  The generator state of the \<^verbatim>\<open>random\<close> module is a stream of raw draws; every call of
  the module's API consumes one draw and maps it into the documented range of the call:
  \<^verbatim>\<open>random()\<close> into \<open>[0, 1)\<close> in steps of \<open>2^-53\<close>, \<^verbatim>\<open>uniform(a, b)\<close> as
  \<open>a + (b - a) * random()\<close>, \<^verbatim>\<open>randint(a, b)\<close> into \<open>a..b\<close>, raising \<^verbatim>\<open>ValueError\<close>
  on an empty range, \<^verbatim>\<open>choice(seq)\<close> to an element of \<open>seq\<close>, raising
  \<^verbatim>\<open>IndexError\<close> on an empty sequence. A computation that
  draws is a function from the state to its outcome and the state left behind, also when
  it raises.
\<close>

type_synonym rng = "nat \<Rightarrow> nat"

type_synonym 'a rand = "rng \<Rightarrow> (exn + 'a) \<times> rng"

definition rreturn :: "'a \<Rightarrow> 'a rand" where
  "rreturn x = (\<lambda>g. (Inr x, g))"

definition rraise :: "exn \<Rightarrow> 'a rand" where
  "rraise e = (\<lambda>g. (Inl e, g))"

definition rbind :: "'a rand \<Rightarrow> ('a \<Rightarrow> 'b rand) \<Rightarrow> 'b rand" where
  "rbind m f = (\<lambda>g. case m g of (Inl e, g') \<Rightarrow> (Inl e, g') | (Inr x, g') \<Rightarrow> f x g')"

definition draw :: "nat rand" where
  "draw = (\<lambda>g. (Inr (g 0), \<lambda>n. g (Suc n)))"

definition random_random :: "real rand" where
  "random_random = rbind draw (\<lambda>d. rreturn (real (d mod 2 ^ 53) / 2 ^ 53))"

definition random_uniform :: "real \<Rightarrow> real \<Rightarrow> real rand" where
  "random_uniform a b = rbind random_random (\<lambda>u. rreturn (a + (b - a) * u))"

definition random_randint :: "int \<Rightarrow> int \<Rightarrow> int rand" where
  "random_randint a b =
     (if b < a then rraise ValueError
      else rbind draw (\<lambda>d. rreturn (a + int (d mod nat (b - a + 1)))))"

definition random_choice :: "'a list \<Rightarrow> 'a rand" where
  "random_choice xs =
     (if xs = [] then rraise IndexError
      else rbind draw (\<lambda>d. rreturn (xs ! (d mod length xs))))"

subsection \<open>Rounding to one decimal\<close>

text \<open>\<^verbatim>\<open>round(x)\<close> rounds to the nearest integer, a tie to the even one;
  \<^verbatim>\<open>round(x, 1)\<close> does the same at the first decimal.\<close>

definition py_round :: "real \<Rightarrow> int" where
  "py_round x =
     (let f = \<lfloor>x\<rfloor>; d = x - of_int f
      in if d < 1 / 2 then f else if 1 / 2 < d then f + 1 else if even f then f else f + 1)"

definition round1 :: "real \<Rightarrow> real" where
  "round1 x = of_int (py_round (x * 10)) / 10"

section \<open>Data model\<close>

text \<open>The dictionaries with a fixed key set are records: a curated address entry, the
  bounding box, the data of a location, a generated property and its analysis.\<close>

record addr_data =
  addr_address :: string
  addr_has_solar :: bool
  addr_lat :: real
  addr_lon :: real

record bbox =
  north :: real
  south :: real
  east :: real
  west :: real

record location_data =
  bounds :: bbox
  addresses :: "addr_data list"
  cities :: "string list"

record property_data =
  property_id :: string
  owner_name :: string
  address :: string
  latitude :: real
  longitude :: real
  has_solar_panels :: bool
  estimated_panel_count :: int
  panel_area_sq_meters :: real
  installation_year :: "int option"
  system_size_kw :: real
  estimated_savings_annual :: int
  property_value :: int
  roof_type :: string
  roof_age_years :: int

record analysis =
  solar_potential_score :: int
  recommended_system_size_kw :: real
  estimated_installation_cost :: real
  estimated_annual_savings :: int
  payback_period_years :: real
  roi_percentage :: real

section \<open>Potential scorer: \<^verbatim>\<open>analyze_solar_potential\<close>\<close>

definition roof_bonus :: "(string \<times> int) list" where
  "roof_bonus = [(''Asphalt Shingle'', 20), (''Metal'', 25), (''Tile'', 15), (''Slate'', 10)]"

text \<open>\<^verbatim>\<open>roof_bonus.get(key, 0)\<close>\<close>

definition dict_get :: "('k \<times> 'v) list \<Rightarrow> 'k \<Rightarrow> 'v \<Rightarrow> 'v" where
  "dict_get d k dflt = (case map_of d k of None \<Rightarrow> dflt | Some v \<Rightarrow> v)"

text \<open>The value of the local variable \<^verbatim>\<open>base_score\<close> when the clamp is reached.\<close>

definition base_score :: "property_data \<Rightarrow> int" where
  "base_score p =
     (let s0 = 50;
          s1 = s0 + dict_get roof_bonus (roof_type p) 0;
          s2 = (if roof_age_years p < 10 then s1 + 15
                else if roof_age_years p < 20 then s1 + 10 else s1);
          s3 = (if property_value p > 400000 then s2 + 15
                else if property_value p > 300000 then s2 + 10 else s2)
      in s3)"

text \<open>Float division, raising \<^verbatim>\<open>ZeroDivisionError\<close> on a zero divisor.\<close>

definition py_truediv :: "real \<Rightarrow> real \<Rightarrow> real rand" where
  "py_truediv a b = (if b = 0 then rraise ZeroDivisionError else rreturn (a / b))"

definition analyze_solar_potential :: "property_data \<Rightarrow> analysis rand" where
  "analyze_solar_potential p =
     (if has_solar_panels p then
        rreturn \<lparr>solar_potential_score = 100,
                 recommended_system_size_kw = system_size_kw p,
                 estimated_installation_cost = system_size_kw p * 3000,
                 estimated_annual_savings = estimated_savings_annual p,
                 payback_period_years = 0,
                 roi_percentage = 100\<rparr>
      else
        rbind (random_uniform 6 12) (\<lambda>u.
        let size = round1 u; cost = size * 3000 in
        rbind (random_randint 600 1800) (\<lambda>savings.
        rbind (py_truediv cost (of_int savings)) (\<lambda>pb.
        rbind (py_truediv (of_int (savings * 20)) cost) (\<lambda>q.
        rreturn \<lparr>solar_potential_score = min 100 (base_score p),
                 recommended_system_size_kw = size,
                 estimated_installation_cost = cost,
                 estimated_annual_savings = savings,
                 payback_period_years = round1 pb,
                 roi_percentage = round1 (q * 100)\<rparr>)))))"

section \<open>String operations of Python used by the pipeline\<close>

text \<open>\<^verbatim>\<open>str.lower()\<close> on the code points 0 to 255: the upper-case letters are
  \<open>A\<close> to \<open>Z\<close> (65 to 90) and 192 to 222 without the multiplication sign 215; each maps
  to the code point 32 above.\<close>

definition lower_char :: "char \<Rightarrow> char" where
  "lower_char c =
     (let n = of_char c :: nat
      in if (65 \<le> n \<and> n \<le> 90) \<or> (192 \<le> n \<and> n \<le> 222 \<and> n \<noteq> 215)
         then char_of (n + 32) else c)"

definition py_lower :: "string \<Rightarrow> string" where
  "py_lower s = map lower_char s"

text \<open>\<^verbatim>\<open>key in s\<close> on strings: \<open>key\<close> occurs in \<open>s\<close> as a contiguous substring.\<close>

fun py_in :: "string \<Rightarrow> string \<Rightarrow> bool" where
  "py_in key [] = (key = [])"
| "py_in key (c # s) = (take (length key) (c # s) = key \<or> py_in key s)"

text \<open>\<^verbatim>\<open>s.split(sep)\<close> for a one-character separator.\<close>

fun split_acc :: "char \<Rightarrow> string \<Rightarrow> string \<Rightarrow> string list" where
  "split_acc sep acc [] = [rev acc]"
| "split_acc sep acc (c # s) =
     (if c = sep then rev acc # split_acc sep [] s else split_acc sep (c # acc) s)"

definition py_split :: "char \<Rightarrow> string \<Rightarrow> string list" where
  "py_split sep s = split_acc sep [] s"

text \<open>\<^verbatim>\<open>xs[0]\<close>, raising \<^verbatim>\<open>IndexError\<close> on an empty list.\<close>

definition index0 :: "'a list \<Rightarrow> exn + 'a" where
  "index0 xs = (case xs of [] \<Rightarrow> Inl IndexError | x # _ \<Rightarrow> Inr x)"

text \<open>\<^verbatim>\<open>str.strip()\<close>: the white space among the code points 0 to 255 is 9 to 13,
  28 to 32, 133 and 160.\<close>

definition py_isspace :: "char \<Rightarrow> bool" where
  "py_isspace c =
     (let n = of_char c :: nat
      in (9 \<le> n \<and> n \<le> 13) \<or> (28 \<le> n \<and> n \<le> 32) \<or> n = 133 \<or> n = 160)"

definition py_strip :: "string \<Rightarrow> string" where
  "py_strip s = rev (dropWhile py_isspace (rev (dropWhile py_isspace s)))"

text \<open>\<^verbatim>\<open>str(n)\<close> for an integer, and the format \<^verbatim>\<open>{n:06d}\<close>: the decimal digits,
  padded with zeros after the sign to a width of at least six characters.\<close>

definition digit_char :: "nat \<Rightarrow> char" where
  "digit_char d = char_of (48 + d)"

fun str_nat :: "nat \<Rightarrow> string" where
  "str_nat n = (if n < 10 then [digit_char n] else str_nat (n div 10) @ [digit_char (n mod 10)])"

declare str_nat.simps [simp del]

definition str_int :: "int \<Rightarrow> string" where
  "str_int i = (if i < 0 then ''-'' @ str_nat (nat (- i)) else str_nat (nat i))"

definition format_06d :: "int \<Rightarrow> string" where
  "format_06d i =
     (let sgn = (if i < 0 then ''-'' else ''''); ds = str_nat (nat \<bar>i\<bar>)
      in sgn @ replicate (6 - length sgn - length ds) (CHR ''0'') @ ds)"

section \<open>Location resolver: \<^verbatim>\<open>_get_location_data\<close>\<close>

definition mk_addr :: "string \<Rightarrow> bool \<Rightarrow> real \<Rightarrow> real \<Rightarrow> addr_data" where
  "mk_addr a s la lo = \<lparr>addr_address = a, addr_has_solar = s, addr_lat = la, addr_lon = lo\<rparr>"

definition st_tammany_data :: location_data where
  "st_tammany_data =
     \<lparr>bounds = \<lparr>north = 30.7, south = 30.1, east = -89.7, west = -90.5\<rparr>,
      addresses =
        [mk_addr ''1234 Tyler St, Covington, LA 70433'' True 30.4755 (-90.1009),
         mk_addr ''5678 Jefferson Ave, Covington, LA 70433'' True 30.4789 (-90.0956),
         mk_addr ''9012 Boston St, Covington, LA 70433'' False 30.4723 (-90.1023),
         mk_addr ''3456 Florida St, Covington, LA 70433'' True 30.4812 (-90.0887),
         mk_addr ''7890 Lakeshore Dr, Mandeville, LA 70448'' True 30.3589 (-90.0654),
         mk_addr ''2345 Girod St, Mandeville, LA 70448'' False 30.3623 (-90.0712),
         mk_addr ''6789 Monroe St, Mandeville, LA 70448'' True 30.3556 (-90.0598),
         mk_addr ''1234 Front St, Slidell, LA 70458'' False 30.2756 (-89.7812),
         mk_addr ''5678 2nd St, Slidell, LA 70458'' True 30.2789 (-89.7756),
         mk_addr ''9012 3rd St, Slidell, LA 70458'' False 30.2723 (-89.7834)],
      cities = [''Covington'', ''Mandeville'', ''Slidell'', ''Hammond'', ''Abita Springs'',
                ''Lacombe'', ''Pearl River'', ''Folsom'']\<rparr>"

definition new_orleans_data :: location_data where
  "new_orleans_data =
     \<lparr>bounds = \<lparr>north = 30.1, south = 29.8, east = -89.8, west = -90.2\<rparr>,
      addresses =
        [mk_addr ''1234 Magazine St, New Orleans, LA 70130'' True 29.9258 (-90.0801),
         mk_addr ''5678 St. Charles Ave, New Orleans, LA 70130'' False 29.9289 (-90.0756),
         mk_addr ''9012 Canal St, New Orleans, LA 70112'' True 29.9623 (-90.0723),
         mk_addr ''3456 Bourbon St, New Orleans, LA 70116'' False 29.9589 (-90.0654),
         mk_addr ''7890 Royal St, New Orleans, LA 70116'' True 29.9612 (-90.0623)],
      cities = [''New Orleans'', ''Metairie'', ''Kenner'', ''Chalmette'', ''Harvey'']\<rparr>"

definition baton_rouge_data :: location_data where
  "baton_rouge_data =
     \<lparr>bounds = \<lparr>north = 30.6, south = 30.3, east = -91.0, west = -91.3\<rparr>,
      addresses =
        [mk_addr ''1234 Government St, Baton Rouge, LA 70802'' True 30.4515 (-91.1873),
         mk_addr ''5678 Perkins Rd, Baton Rouge, LA 70810'' False 30.4089 (-91.1456),
         mk_addr ''9012 College Dr, Baton Rouge, LA 70808'' True 30.4123 (-91.1523),
         mk_addr ''3456 Highland Rd, Baton Rouge, LA 70808'' False 30.4189 (-91.1554)],
      cities = [''Baton Rouge'', ''Baker'', ''Zachary'', ''Central'', ''Denham Springs'']\<rparr>"

text \<open>The \<^verbatim>\<open>else\<close> branch, given the first piece of \<^verbatim>\<open>location.split(',')\<close>.\<close>

definition generic_data :: "string \<Rightarrow> string \<Rightarrow> location_data" where
  "generic_data location first_piece =
     \<lparr>bounds = \<lparr>north = 30.5, south = 30.0, east = -90.0, west = -90.5\<rparr>,
      addresses =
        [mk_addr (''1234 Main St, '' @ location) True 30.4 (-90.1),
         mk_addr (''5678 Oak Ave, '' @ location) False 30.41 (-90.11),
         mk_addr (''9012 Pine St, '' @ location) True 30.39 (-90.09)],
      cities = [py_strip first_piece]\<rparr>"

definition get_location_data :: "string \<Rightarrow> exn + location_data" where
  "get_location_data location =
     (let location_lower = py_lower location
      in if py_in ''st. tammany'' location_lower \<or> py_in ''st tammany'' location_lower
           then Inr st_tammany_data
         else if py_in ''new orleans'' location_lower \<or> py_in ''nola'' location_lower
           then Inr new_orleans_data
         else if py_in ''baton rouge'' location_lower
           then Inr baton_rouge_data
         else (case index0 (py_split (CHR '','') location) of
                 Inl e \<Rightarrow> Inl e
               | Inr first_piece \<Rightarrow> Inr (generic_data location first_piece)))"

section \<open>Property generator: \<^verbatim>\<open>generate_realistic_properties\<close>\<close>

definition roof_types :: "string list" where
  "roof_types = [''Asphalt Shingle'', ''Metal'', ''Tile'', ''Slate'']"

definition street_names :: "string list" where
  "street_names = [''Main'', ''Oak'', ''Pine'', ''Cedar'', ''Maple'']"

text \<open>The fields every branch fills in the same way, in the order the dictionary display
  evaluates them: the five fields of an installed system (drawn only when the flag is
  set), then value, roof type and roof age.\<close>

definition fill_property ::
  "nat \<Rightarrow> string \<Rightarrow> real \<Rightarrow> real \<Rightarrow> bool \<Rightarrow> property_data rand" where
  "fill_property i addr la lo has_solar =
     rbind (if has_solar then random_randint 15 45 else rreturn 0) (\<lambda>panel_count.
     rbind (if has_solar then random_uniform 25 75 else rreturn 0) (\<lambda>panel_area.
     rbind (if has_solar then rbind (random_randint 2018 2023) (\<lambda>y. rreturn (Some y))
            else rreturn None) (\<lambda>year.
     rbind (if has_solar then rbind (random_uniform 5 15) (\<lambda>u. rreturn (round1 u))
            else rreturn 0) (\<lambda>size.
     rbind (if has_solar then random_randint 800 2500 else rreturn 0) (\<lambda>savings.
     rbind (random_randint 200000 600000) (\<lambda>pvalue.
     rbind (random_choice roof_types) (\<lambda>roof.
     rbind (random_randint 5 25) (\<lambda>age.
     rreturn \<lparr>property_id = ''PROP_'' @ format_06d (int i + 1),
              owner_name = ''Property Owner '' @ str_int (int i + 1),
              address = addr,
              latitude = la,
              longitude = lo,
              has_solar_panels = has_solar,
              estimated_panel_count = panel_count,
              panel_area_sq_meters = panel_area,
              installation_year = year,
              system_size_kw = size,
              estimated_savings_annual = savings,
              property_value = pvalue,
              roof_type = roof,
              roof_age_years = age\<rparr>))))))))"

text \<open>One pass of the loop body for index \<open>i\<close>.\<close>

definition make_property :: "location_data \<Rightarrow> nat \<Rightarrow> property_data rand" where
  "make_property location_data i =
     (let real_addresses = addresses location_data
      in if i < length real_addresses then
           (let addr = real_addresses ! i
            in fill_property i (addr_address addr) (addr_lat addr) (addr_lon addr)
                 (addr_has_solar addr))
         else
           rbind (random_uniform (south (bounds location_data)) (north (bounds location_data)))
             (\<lambda>la.
           rbind (random_uniform (west (bounds location_data)) (east (bounds location_data)))
             (\<lambda>lo.
           rbind random_random (\<lambda>r.
           let has_solar = (r < 0.3) in
           rbind (random_randint 100 9999) (\<lambda>house_no.
           rbind (random_choice street_names) (\<lambda>street.
           rbind (random_choice (cities location_data)) (\<lambda>city.
           fill_property i (str_int house_no @ '' '' @ street @ '' St, '' @ city)
             la lo has_solar)))))))"

fun generate_loop ::
  "location_data \<Rightarrow> nat list \<Rightarrow> property_data list \<Rightarrow> property_data list rand" where
  "generate_loop location_data [] properties = rreturn properties"
| "generate_loop location_data (i # rest) properties =
     rbind (make_property location_data i)
       (\<lambda>p. generate_loop location_data rest (properties @ [p]))"

text \<open>\<^verbatim>\<open>range(count)\<close>, empty for a negative count.\<close>

definition py_range :: "int \<Rightarrow> nat list" where
  "py_range count = [0..<nat count]"

definition generate_realistic_properties :: "int \<Rightarrow> string \<Rightarrow> property_data list rand" where
  "generate_realistic_properties count location =
     (case get_location_data location of
        Inl e \<Rightarrow> rraise e
      | Inr location_data \<Rightarrow> generate_loop location_data (py_range count) [])"

section \<open>Image fetcher: \<^verbatim>\<open>download_house_image\<close>\<close>

text \<open>
  The fields of \<^verbatim>\<open>self\<close> the pipeline reads, and what the outside world answers to one
  call of the fetcher: the outcome of \<^verbatim>\<open>requests.get\<close> (an exception of the transport,
  the timeout among them, or a response) and the outcome of opening and writing the image
  file, should the code get there (\<^term>\<open>None\<close>: written). An f-string prints a float
  with \<^verbatim>\<open>repr\<close>, which is a parameter \<open>float_str\<close>.
\<close>

record detector =
  api_key :: string
  output_dir :: string

record response =
  status_code :: int
  content :: string

record fetch_io =
  requests_get :: "exn + response"
  file_write :: "exn option"

text \<open>The body of the \<^verbatim>\<open>try\<close> block.\<close>

definition download_try ::
  "detector \<Rightarrow> (real \<Rightarrow> string) \<Rightarrow> fetch_io \<Rightarrow> real \<Rightarrow> real \<Rightarrow> int \<Rightarrow> exn + string option" where
  "download_try self float_str io lat lon zoom_level =
     (case requests_get io of
        Inl e \<Rightarrow> Inl e
      | Inr resp \<Rightarrow>
          if status_code resp = 200 then
            (let filename = ''house_'' @ float_str lat @ ''_'' @ float_str lon
                            @ ''_zoom'' @ str_int zoom_level @ ''.png'';
                 filepath = output_dir self @ ''/house_images/'' @ filename
             in case file_write io of
                  Some e \<Rightarrow> Inl e
                | None \<Rightarrow> Inr (Some filepath))
          else Inr None)"

text \<open>\<^verbatim>\<open>except Exception\<close>: whatever the body raises becomes the result \<^verbatim>\<open>None\<close>.\<close>

definition download_house_image ::
  "detector \<Rightarrow> (real \<Rightarrow> string) \<Rightarrow> fetch_io \<Rightarrow> real \<Rightarrow> real \<Rightarrow> int \<Rightarrow> exn + string option" where
  "download_house_image self float_str io lat lon zoom_level =
     (case download_try self float_str io lat lon zoom_level of
        Inl e \<Rightarrow> Inr None
      | Inr r \<Rightarrow> Inr r)"

section \<open>Pipeline orchestrator: \<^verbatim>\<open>process_properties\<close>\<close>

text \<open>
  A result entry is the dictionary built by merging the property, the two image fields,
  the analysis and the time stamp; a later key overrides an earlier one, as \<open>++\<close> does
  on maps. The world answers the fetch of the \<open>i\<close>-th property with \<open>fetch_at w i\<close>, the
  clock reads \<open>now_iso w i\<close> there, and each output step either raises or succeeds.
  The pause after each property has no effect on any value.
\<close>

datatype pyval = PNone | PBool bool | PInt int | PFloat real | PStr string

type_synonym pydict = "string \<rightharpoonup> pyval"

record world =
  float_str :: "real \<Rightarrow> string"
  fetch_at :: "nat \<Rightarrow> fetch_io"
  now_iso :: "nat \<Rightarrow> string"
  results_csv_io :: "exn option"
  summary_csv_io :: "exn option"
  report_io :: "exn option"
  map_io :: "exn option"

definition property_items :: "property_data \<Rightarrow> (string \<times> pyval) list" where
  "property_items p =
     [(''property_id'', PStr (property_id p)),
      (''owner_name'', PStr (owner_name p)),
      (''address'', PStr (address p)),
      (''latitude'', PFloat (latitude p)),
      (''longitude'', PFloat (longitude p)),
      (''has_solar_panels'', PBool (has_solar_panels p)),
      (''estimated_panel_count'', PInt (estimated_panel_count p)),
      (''panel_area_sq_meters'', PFloat (panel_area_sq_meters p)),
      (''installation_year'', (case installation_year p of None \<Rightarrow> PNone | Some y \<Rightarrow> PInt y)),
      (''system_size_kw'', PFloat (system_size_kw p)),
      (''estimated_savings_annual'', PInt (estimated_savings_annual p)),
      (''property_value'', PInt (property_value p)),
      (''roof_type'', PStr (roof_type p)),
      (''roof_age_years'', PInt (roof_age_years p))]"

definition analysis_items :: "analysis \<Rightarrow> (string \<times> pyval) list" where
  "analysis_items a =
     [(''solar_potential_score'', PInt (solar_potential_score a)),
      (''recommended_system_size_kw'', PFloat (recommended_system_size_kw a)),
      (''estimated_installation_cost'', PFloat (estimated_installation_cost a)),
      (''estimated_annual_savings'', PInt (estimated_annual_savings a)),
      (''payback_period_years'', PFloat (payback_period_years a)),
      (''roi_percentage'', PFloat (roi_percentage a))]"

definition combine_result ::
  "property_data \<Rightarrow> string option \<Rightarrow> analysis \<Rightarrow> string \<Rightarrow> pydict" where
  "combine_result p house_image_path solar_analysis now =
     map_of (property_items p)
     ++ map_of [(''house_image_path'', (case house_image_path of None \<Rightarrow> PNone | Some s \<Rightarrow> PStr s)),
                (''image_downloaded'', PBool (house_image_path \<noteq> None))]
     ++ map_of (analysis_items solar_analysis)
     ++ map_of [(''processed_at'', PStr now)]"

text \<open>The body of the \<^verbatim>\<open>try\<close> block of the loop, for the \<open>i\<close>-th property.\<close>

definition process_one :: "detector \<Rightarrow> world \<Rightarrow> nat \<Rightarrow> property_data \<Rightarrow> pydict rand" where
  "process_one self w i p =
     (case download_house_image self (float_str w) (fetch_at w i) (latitude p) (longitude p) 19 of
        Inl e \<Rightarrow> rraise e
      | Inr house_image_path \<Rightarrow>
          rbind (analyze_solar_potential p) (\<lambda>solar_analysis.
          rreturn (combine_result p house_image_path solar_analysis (now_iso w i))))"

text \<open>The loop over \<^verbatim>\<open>enumerate(properties)\<close>: an exception of the body is logged and
  the property left out.\<close>

fun process_loop ::
  "detector \<Rightarrow> world \<Rightarrow> (nat \<times> property_data) list \<Rightarrow> pydict list \<Rightarrow> rng
     \<Rightarrow> pydict list \<times> rng" where
  "process_loop self w [] results g = (results, g)"
| "process_loop self w ((i, p) # rest) results g =
     (case process_one self w i p g of
        (Inl e, g') \<Rightarrow> process_loop self w rest results g'
      | (Inr r, g') \<Rightarrow> process_loop self w rest (results @ [r]) g')"

text \<open>\<^verbatim>\<open>_generate_reports\<close> returns at once on an empty collection and otherwise
  writes the report, which may raise; \<^verbatim>\<open>_create_interactive_map\<close> catches whatever
  goes wrong and returns the path of the map or \<^verbatim>\<open>None\<close>.\<close>

definition generate_reports :: "detector \<Rightarrow> world \<Rightarrow> pydict list \<Rightarrow> exn + unit" where
  "generate_reports self w results =
     (if results = [] then Inr ()
      else case report_io w of
             Some e \<Rightarrow> Inl e
           | None \<Rightarrow> Inr ())"

definition create_interactive_map :: "detector \<Rightarrow> world \<Rightarrow> pydict list \<Rightarrow> string option" where
  "create_interactive_map self w results =
     (case map_io w of
        Some e \<Rightarrow> None
      | None \<Rightarrow> Some (output_dir self @ ''/interactive_map.html''))"

text \<open>The output steps a run starts, in order: each call of \<^verbatim>\<open>to_csv\<close> with its
  path, the call of \<^verbatim>\<open>_generate_reports\<close> and the call of
  \<^verbatim>\<open>_create_interactive_map\<close>. A run returns the result collection, or the exception
  that ended it, together with the output steps it started.\<close>

datatype output_step = ToCsv string | GenerateReports | CreateInteractiveMap

definition process_properties ::
  "detector \<Rightarrow> world \<Rightarrow> int \<Rightarrow> string \<Rightarrow> rng \<Rightarrow> (exn + pydict list) \<times> output_step list" where
  "process_properties self w max_properties location g =
     (case generate_realistic_properties max_properties location g of
        (Inl e, g') \<Rightarrow> (Inl e, [])
      | (Inr properties, g') \<Rightarrow>
          (let results = fst (process_loop self w (enumerate 0 properties) [] g')
           in if results \<noteq> [] then
                (let results_csv = output_dir self @ ''/data/solar_houses_results.csv'';
                     summary_csv = output_dir self @ ''/data/solar_houses_summary.csv''
                 in case results_csv_io w of
                      Some e \<Rightarrow> (Inl e, [ToCsv results_csv])
                    | None \<Rightarrow>
                       (case summary_csv_io w of
                          Some e \<Rightarrow> (Inl e, [ToCsv results_csv, ToCsv summary_csv])
                        | None \<Rightarrow>
                           (case generate_reports self w results of
                              Inl e \<Rightarrow>
                                (Inl e, [ToCsv results_csv, ToCsv summary_csv, GenerateReports])
                            | Inr u \<Rightarrow>
                                (let map_path = create_interactive_map self w results
                                 in (Inr results,
                                     [ToCsv results_csv, ToCsv summary_csv, GenerateReports,
                                      CreateInteractiveMap])))))
              else (Inr results, [])))"

section \<open>Notions the properties are stated with\<close>

text \<open>\<open>occurs_in key s\<close>: the string \<open>key\<close> is a contiguous substring of \<open>s\<close>, said
  without reference to the search that \<^const>\<open>py_in\<close> performs.\<close>

definition occurs_in :: "string \<Rightarrow> string \<Rightarrow> bool" where
  "occurs_in key s = (\<exists>pre suf. s = pre @ key @ suf)"

text \<open>The solar-installed fields of a record are populated exactly when its flag is
  set: all of them non-zero and the year present, or all of them zero and the year
  absent.\<close>

definition solar_fields_consistent :: "property_data \<Rightarrow> bool" where
  "solar_fields_consistent p =
     (if has_solar_panels p then
        estimated_panel_count p \<noteq> 0 \<and> panel_area_sq_meters p \<noteq> 0 \<and>
        system_size_kw p \<noteq> 0 \<and> estimated_savings_annual p \<noteq> 0 \<and>
        installation_year p \<noteq> None
      else
        estimated_panel_count p = 0 \<and> panel_area_sq_meters p = 0 \<and>
        system_size_kw p = 0 \<and> estimated_savings_annual p = 0 \<and>
        installation_year p = None)"

text \<open>What the loop body establishes for the record of index \<open>i\<close>: first for the
  fields handed to \<^const>\<open>fill_property\<close>, then relative to the location data.\<close>

definition made_for ::
  "nat \<Rightarrow> string \<Rightarrow> real \<Rightarrow> real \<Rightarrow> bool \<Rightarrow> property_data \<Rightarrow> bool" where
  "made_for i addr la lo hs p =
     (property_id p = ''PROP_'' @ format_06d (int i + 1) \<and> address p = addr \<and>
      latitude p = la \<and> longitude p = lo \<and> has_solar_panels p = hs \<and>
      solar_fields_consistent p)"

definition generated_at :: "location_data \<Rightarrow> nat \<Rightarrow> property_data \<Rightarrow> bool" where
  "generated_at ld i p =
     (property_id p = ''PROP_'' @ format_06d (int i + 1) \<and> solar_fields_consistent p \<and>
      (i < length (addresses ld) \<longrightarrow>
         address p = addr_address (addresses ld ! i) \<and>
         latitude p = addr_lat (addresses ld ! i) \<and>
         longitude p = addr_lon (addresses ld ! i) \<and>
         has_solar_panels p = addr_has_solar (addresses ld ! i)))"

text \<open>The number a string of decimal digits stands for, leading zeros allowed.\<close>

definition digits_value :: "string \<Rightarrow> nat" where
  "digits_value s = foldl (\<lambda>acc c. acc * 10 + (of_char c - 48)) 0 s"

subsection \<open>Computations that draw\<close>

text \<open>\<open>returns m P\<close>: from every generator state, \<open>m\<close> returns a value (it does not
  raise), and the value satisfies \<open>P\<close>.\<close>

definition returns :: "'a rand \<Rightarrow> ('a \<Rightarrow> bool) \<Rightarrow> bool" where
  "returns m P = (\<forall>g. \<exists>x g'. m g = (Inr x, g') \<and> P x)"

section \<open>Concrete inputs\<close>

text \<open>A property without panels, with a metal roof five years old and a value of
  500000; and the same property with an installed system of 7.5 kW.\<close>

definition metal_property :: property_data where
  "metal_property =
     \<lparr>property_id = ''PROP_000001'', owner_name = ''Property Owner 1'',
      address = ''1234 Main St, Springfield'', latitude = 30.4, longitude = -90.1,
      has_solar_panels = False, estimated_panel_count = 0, panel_area_sq_meters = 0,
      installation_year = None, system_size_kw = 0, estimated_savings_annual = 0,
      property_value = 500000, roof_type = ''Metal'', roof_age_years = 5\<rparr>"

definition solar_property :: property_data where
  "solar_property =
     metal_property\<lparr>has_solar_panels := True, estimated_panel_count := 20,
       panel_area_sq_meters := 40, installation_year := Some 2020,
       system_size_kw := 7.5, estimated_savings_annual := 1200\<rparr>"

text \<open>The generator state whose every raw draw is 0.\<close>

definition zero_rng :: rng where
  "zero_rng = (\<lambda>_. 0)"

text \<open>The two records of a run of two properties for \<open>Austin, TX\<close> from the
  generator state \<^const>\<open>zero_rng\<close>: every draw is the least value of its range.\<close>

definition austin_first :: property_data where
  "austin_first =
     \<lparr>property_id = ''PROP_000001'', owner_name = ''Property Owner 1'',
      address = ''1234 Main St, Austin, TX'', latitude = 30.4, longitude = -90.1,
      has_solar_panels = True, estimated_panel_count = 15, panel_area_sq_meters = 25,
      installation_year = Some 2018, system_size_kw = 5, estimated_savings_annual = 800,
      property_value = 200000, roof_type = ''Asphalt Shingle'', roof_age_years = 5\<rparr>"

definition austin_second :: property_data where
  "austin_second =
     \<lparr>property_id = ''PROP_000002'', owner_name = ''Property Owner 2'',
      address = ''5678 Oak Ave, Austin, TX'', latitude = 30.41, longitude = -90.11,
      has_solar_panels = False, estimated_panel_count = 0, panel_area_sq_meters = 0,
      installation_year = None, system_size_kw = 0, estimated_savings_annual = 0,
      property_value = 200000, roof_type = ''Asphalt Shingle'', roof_age_years = 5\<rparr>"

text \<open>Responses of the map service and outcomes of one fetch: the image arrives and is
  written; it arrives and the write fails; the service answers 404; the request times
  out.\<close>

definition ok_response :: response where
  "ok_response = \<lparr>status_code = 200, content = ''png-bytes''\<rparr>"

definition not_found_response :: response where
  "not_found_response = \<lparr>status_code = 404, content = ''''\<rparr>"

definition fetch_ok :: fetch_io where
  "fetch_ok = \<lparr>requests_get = Inr ok_response, file_write = None\<rparr>"

definition fetch_write_fails :: fetch_io where
  "fetch_write_fails =
     \<lparr>requests_get = Inr ok_response, file_write = Some (OtherException ''No space left on device'')\<rparr>"

definition fetch_not_found :: fetch_io where
  "fetch_not_found = \<lparr>requests_get = Inr not_found_response, file_write = None\<rparr>"

definition fetch_timeout :: fetch_io where
  "fetch_timeout = \<lparr>requests_get = Inl (OtherException ''Timeout''), file_write = None\<rparr>"

definition sample_detector :: detector where
  "sample_detector = \<lparr>api_key = ''KEY'', output_dir = ''solar_houses_output''\<rparr>"

definition sample_float_str :: "real \<Rightarrow> string" where
  "sample_float_str x =
     (if x = 30.4 then ''30.4'' else if x = -90.1 then ''-90.1''
      else if x = 30.41 then ''30.41'' else if x = -90.11 then ''-90.11'' else ''0.0'')"

text \<open>Two worlds: every fetch is answered with 404; only the first fetch succeeds. In
  both every output step succeeds.\<close>

definition failing_world :: world where
  "failing_world =
     \<lparr>float_str = sample_float_str, fetch_at = (\<lambda>i. fetch_not_found),
      now_iso = (\<lambda>i. ''2024-05-01T12:00:00''),
      results_csv_io = None, summary_csv_io = None, report_io = None, map_io = None\<rparr>"

definition mixed_world :: world where
  "mixed_world =
     \<lparr>float_str = sample_float_str,
      fetch_at = (\<lambda>i. if i = 0 then fetch_ok else fetch_timeout),
      now_iso = (\<lambda>i. ''2024-05-01T12:00:00''),
      results_csv_io = None, summary_csv_io = None, report_io = None, map_io = None\<rparr>"

text \<open>The result entries of the run of two properties for \<open>Austin, TX\<close> in
  \<^const>\<open>mixed_world\<close> from \<^const>\<open>zero_rng\<close>.\<close>

definition mixed_first_result :: pydict where
  "mixed_first_result =
     combine_result austin_first
       (Some ''solar_houses_output/house_images/house_30.4_-90.1_zoom19.png'')
       \<lparr>solar_potential_score = 100, recommended_system_size_kw = 5,
        estimated_installation_cost = 15000, estimated_annual_savings = 800,
        payback_period_years = 0, roi_percentage = 100\<rparr>
       ''2024-05-01T12:00:00''"

definition mixed_second_result :: pydict where
  "mixed_second_result =
     combine_result austin_second None
       \<lparr>solar_potential_score = 85, recommended_system_size_kw = 6,
        estimated_installation_cost = 18000, estimated_annual_savings = 600,
        payback_period_years = 30, roi_percentage = 66.7\<rparr>
       ''2024-05-01T12:00:00''"

section \<open>Properties of the random draws\<close>

lemma returns_rreturn: "P x \<Longrightarrow> returns (rreturn x) P"
  by (simp add: returns_def rreturn_def)

lemma returns_rbind:
  assumes "returns m P" and "\<And>x. P x \<Longrightarrow> returns (f x) Q"
  shows "returns (rbind m f) Q"
  unfolding returns_def
proof
  fix g
  from assms(1) obtain x g' where m: "m g = (Inr x, g')" and px: "P x"
    unfolding returns_def by blast
  from assms(2)[OF px] obtain y g'' where "f x g' = (Inr y, g'')" and "Q y"
    unfolding returns_def by blast
  with m show "\<exists>y g''. rbind m f g = (Inr y, g'') \<and> Q y"
    by (simp add: rbind_def)
qed

lemma returns_weaken: "returns m P \<Longrightarrow> (\<And>x. P x \<Longrightarrow> Q x) \<Longrightarrow> returns m Q"
  unfolding returns_def by blast

lemma returns_draw: "returns draw (\<lambda>_. True)"
  by (simp add: returns_def draw_def)

lemma returns_random_random: "returns random_random (\<lambda>u. 0 \<le> u \<and> u < 1)"
  unfolding random_random_def
  by (rule returns_rbind[OF returns_draw], rule returns_rreturn) simp

lemma returns_random_uniform:
  assumes "a \<le> b"
  shows "returns (random_uniform a b) (\<lambda>x. a \<le> x \<and> x \<le> b)"
  unfolding random_uniform_def
proof (rule returns_rbind[OF returns_random_random], rule returns_rreturn)
  fix u :: real
  assume u: "0 \<le> u \<and> u < 1"
  have "0 \<le> (b - a) * u" using assms u by simp
  moreover have "(b - a) * u \<le> (b - a) * 1"
    using assms u by (intro mult_left_mono) auto
  ultimately show "a \<le> a + (b - a) * u \<and> a + (b - a) * u \<le> b" by simp
qed

lemma returns_random_randint:
  assumes "a \<le> b"
  shows "returns (random_randint a b) (\<lambda>x. a \<le> x \<and> x \<le> b)"
proof -
  have "returns (rbind draw (\<lambda>d. rreturn (a + int (d mod nat (b - a + 1)))))
          (\<lambda>x. a \<le> x \<and> x \<le> b)"
  proof (rule returns_rbind[OF returns_draw], rule returns_rreturn)
    fix d :: nat
    have "0 < nat (b - a + 1)" using assms by simp
    then have "d mod nat (b - a + 1) < nat (b - a + 1)" by simp
    then show "a \<le> a + int (d mod nat (b - a + 1)) \<and> a + int (d mod nat (b - a + 1)) \<le> b"
      by linarith
  qed
  with assms show ?thesis by (simp add: random_randint_def)
qed

lemma returns_random_choice:
  assumes "xs \<noteq> []"
  shows "returns (random_choice xs) (\<lambda>x. x \<in> set xs)"
  using assms unfolding random_choice_def
  by (auto intro!: returns_rbind[OF returns_draw] returns_rreturn)

lemma py_round_ge: "of_int c \<le> x \<Longrightarrow> c \<le> py_round x"
proof -
  assume "of_int c \<le> x"
  then have "c \<le> \<lfloor>x\<rfloor>" by (simp add: le_floor_iff)
  then show ?thesis by (simp add: py_round_def Let_def)
qed

lemma round1_ge:
  assumes "of_int c \<le> x"
  shows "of_int c \<le> round1 x"
proof -
  have "of_int (c * 10) \<le> x * 10" using assms by simp
  then have "c * 10 \<le> py_round (x * 10)" by (rule py_round_ge)
  then have "(of_int (c * 10) :: real) \<le> of_int (py_round (x * 10))"
    by (simp only: of_int_le_iff)
  then show ?thesis by (simp add: round1_def)
qed

lemma returns_py_truediv: "b \<noteq> 0 \<Longrightarrow> returns (py_truediv a b) (\<lambda>_. True)"
  by (simp add: py_truediv_def returns_rreturn)

lemma round1_times_nonzero:
  assumes "6 \<le> u"
  shows "round1 u * 3000 \<noteq> 0"
proof -
  have "of_int 6 \<le> round1 u" using assms by (intro round1_ge) simp
  then show ?thesis by simp
qed

lemma returns_analyze_no_solar:
  assumes "\<not> has_solar_panels p"
  shows "returns (analyze_solar_potential p)
           (\<lambda>a. solar_potential_score a = min 100 (base_score p))"
proof -
  let ?Q = "\<lambda>a. solar_potential_score a = min 100 (base_score p)"
  have "returns (rbind (random_uniform 6 12) (\<lambda>u.
          rbind (random_randint 600 1800) (\<lambda>savings.
          rbind (py_truediv (round1 u * 3000) (of_int savings)) (\<lambda>pb.
          rbind (py_truediv (of_int (savings * 20)) (round1 u * 3000)) (\<lambda>q.
          rreturn \<lparr>solar_potential_score = min 100 (base_score p),
                   recommended_system_size_kw = round1 u,
                   estimated_installation_cost = round1 u * 3000,
                   estimated_annual_savings = savings,
                   payback_period_years = round1 pb,
                   roi_percentage = round1 (q * 100)\<rparr>))))) ?Q"
  proof (rule returns_rbind[OF returns_random_uniform])
    show "(6::real) \<le> 12" by simp
  next
    fix u :: real
    assume u: "6 \<le> u \<and> u \<le> 12"
    show "returns (rbind (random_randint 600 1800) (\<lambda>savings.
          rbind (py_truediv (round1 u * 3000) (of_int savings)) (\<lambda>pb.
          rbind (py_truediv (of_int (savings * 20)) (round1 u * 3000)) (\<lambda>q.
          rreturn \<lparr>solar_potential_score = min 100 (base_score p),
                   recommended_system_size_kw = round1 u,
                   estimated_installation_cost = round1 u * 3000,
                   estimated_annual_savings = savings,
                   payback_period_years = round1 pb,
                   roi_percentage = round1 (q * 100)\<rparr>)))) ?Q"
    proof (rule returns_rbind[OF returns_random_randint])
      show "(600::int) \<le> 1800" by simp
    next
      fix savings :: int
      assume s: "600 \<le> savings \<and> savings \<le> 1800"
      then have s0: "(of_int savings :: real) \<noteq> 0" by simp
      from u have c0: "round1 u * 3000 \<noteq> 0" by (intro round1_times_nonzero) simp
      show "returns (rbind (py_truediv (round1 u * 3000) (of_int savings)) (\<lambda>pb.
          rbind (py_truediv (of_int (savings * 20)) (round1 u * 3000)) (\<lambda>q.
          rreturn \<lparr>solar_potential_score = min 100 (base_score p),
                   recommended_system_size_kw = round1 u,
                   estimated_installation_cost = round1 u * 3000,
                   estimated_annual_savings = savings,
                   payback_period_years = round1 pb,
                   roi_percentage = round1 (q * 100)\<rparr>))) ?Q"
        by (rule returns_rbind[OF returns_py_truediv[OF s0]],
            rule returns_rbind[OF returns_py_truediv[OF c0]],
            rule returns_rreturn) simp
    qed
  qed
  then show ?thesis
    using assms by (simp add: analyze_solar_potential_def Let_def)
qed

lemma base_score_unfold:
  "base_score p =
     50 + (if roof_type p = ''Asphalt Shingle'' then 20
           else if roof_type p = ''Metal'' then 25
           else if roof_type p = ''Tile'' then 15
           else if roof_type p = ''Slate'' then 10 else 0)
        + (if roof_age_years p < 10 then 15 else if roof_age_years p < 20 then 10 else 0)
        + (if property_value p > 400000 then 15
           else if property_value p > 300000 then 10 else 0)"
  by (simp add: base_score_def roof_bonus_def dict_get_def Let_def)

lemma returns_analyze_solar_potential:
  "returns (analyze_solar_potential p) (\<lambda>_. True)"
proof (cases "has_solar_panels p")
  case True
  then show ?thesis
    by (simp add: analyze_solar_potential_def returns_rreturn)
next
  case False
  then show ?thesis
    by (rule returns_weaken[OF returns_analyze_no_solar]) simp
qed

section \<open>The potential scorer\<close>

text \<open>
  Claim C1. For a property whose \<open>has_solar_panels\<close> is false the scorer returns (it does
  not raise), and the score is 50 plus the roof-type bonus (Asphalt Shingle 20, Metal 25,
  Tile 15, Slate 10, any other type 0), plus the age bonus (15 below 10 years, else 10
  below 20 years, else 0), plus the value bonus (15 above 400000, else 10 above 300000,
  else 0), clamped to at most 100. For a metal roof of age 5 on a property worth 500000
  the sum before the clamp is 105 and the score is 100.
\<close>

theorem analyze_solar_potential_no_solar_score:
  assumes "\<not> has_solar_panels p"
  shows "\<exists>a g'. analyze_solar_potential p g = (Inr a, g') \<and>
     solar_potential_score a =
       min 100
         (50 + (if roof_type p = ''Asphalt Shingle'' then 20
                else if roof_type p = ''Metal'' then 25
                else if roof_type p = ''Tile'' then 15
                else if roof_type p = ''Slate'' then 10 else 0)
             + (if roof_age_years p < 10 then 15 else if roof_age_years p < 20 then 10 else 0)
             + (if property_value p > 400000 then 15
                else if property_value p > 300000 then 10 else 0)) \<and>
     (roof_type p = ''Metal'' \<and> roof_age_years p = 5 \<and> property_value p = 500000
        \<longrightarrow> base_score p = 105 \<and> solar_potential_score a = 100)"
proof -
  from returns_analyze_no_solar[OF assms]
  obtain a g' where run: "analyze_solar_potential p g = (Inr a, g')"
    and score: "solar_potential_score a = min 100 (base_score p)"
    unfolding returns_def by blast
  have metal: "base_score p = 105"
    if "roof_type p = ''Metal'' \<and> roof_age_years p = 5 \<and> property_value p = 500000"
    using that by (simp add: base_score_unfold)
  from run score metal show ?thesis
    by (intro exI[of _ a] exI[of _ g']) (simp add: base_score_unfold)
qed

theorem analyze_solar_potential_no_solar_score_witness:
  "\<not> has_solar_panels metal_property \<and>
   (\<exists>a g'. analyze_solar_potential metal_property zero_rng = (Inr a, g') \<and>
      solar_potential_score a = 100) \<and> base_score metal_property = 105"
  using analyze_solar_potential_no_solar_score[of metal_property zero_rng]
  by (simp add: metal_property_def) blast

text \<open>
  Claim C2. For a property whose \<open>has_solar_panels\<close> is true the scorer returns, without
  drawing, the score 100, the payback period 0, the return on investment 100, the
  recommended size equal to the stored \<open>system_size_kw\<close>, the installation cost equal to
  \<open>system_size_kw\<close> times 3000, and the annual savings equal to the stored
  \<open>estimated_savings_annual\<close>.
\<close>

theorem analyze_solar_potential_has_solar:
  assumes "has_solar_panels p"
  shows "\<exists>a. analyze_solar_potential p g = (Inr a, g) \<and>
     solar_potential_score a = 100 \<and>
     payback_period_years a = 0 \<and>
     roi_percentage a = 100 \<and>
     recommended_system_size_kw a = system_size_kw p \<and>
     estimated_installation_cost a = system_size_kw p * 3000 \<and>
     estimated_annual_savings a = estimated_savings_annual p"
  using assms by (simp add: analyze_solar_potential_def rreturn_def)

theorem analyze_solar_potential_has_solar_witness:
  "has_solar_panels solar_property \<and>
   (\<exists>a. analyze_solar_potential solar_property zero_rng = (Inr a, zero_rng) \<and>
     solar_potential_score a = 100 \<and> payback_period_years a = 0 \<and> roi_percentage a = 100 \<and>
     recommended_system_size_kw a = 7.5 \<and> estimated_installation_cost a = 22500 \<and>
     estimated_annual_savings a = 1200)"
  using analyze_solar_potential_has_solar[of solar_property zero_rng]
  by (simp add: solar_property_def metal_property_def)

section \<open>The location resolver\<close>

lemma py_in_iff: "py_in key s \<longleftrightarrow> occurs_in key s"
proof (induction s)
  case Nil
  show ?case by (auto simp: occurs_in_def)
next
  case (Cons c s)
  show ?case
  proof
    assume "py_in key (c # s)"
    then consider "take (length key) (c # s) = key" | "py_in key s" by auto
    then show "occurs_in key (c # s)"
    proof cases
      case 1
      then have "c # s = [] @ key @ drop (length key) (c # s)"
        by (metis append_Nil append_take_drop_id)
      then show ?thesis unfolding occurs_in_def by blast
    next
      case 2
      with Cons.IH obtain pre suf where "s = pre @ key @ suf"
        unfolding occurs_in_def by blast
      then have "c # s = (c # pre) @ key @ suf" by simp
      then show ?thesis unfolding occurs_in_def by blast
    qed
  next
    assume "occurs_in key (c # s)"
    then obtain pre suf where eq: "c # s = pre @ key @ suf"
      unfolding occurs_in_def by blast
    show "py_in key (c # s)"
    proof (cases pre)
      case Nil
      with eq have "take (length key) (c # s) = key" by simp
      then show ?thesis by simp
    next
      case (Cons c' pre')
      with eq have "s = pre' @ key @ suf" by simp
      then have "occurs_in key s" unfolding occurs_in_def by blast
      with Cons.IH show ?thesis by simp
    qed
  qed
qed

lemma split_acc_nonempty: "split_acc sep acc s \<noteq> []"
  by (induction s arbitrary: acc) auto

lemma index0_py_split: "\<exists>piece. index0 (py_split sep s) = Inr piece"
  using split_acc_nonempty[of sep "[]" s]
  by (cases "py_split sep s") (auto simp: index0_def py_split_def)

lemma get_location_data_returns: "\<exists>d. get_location_data location = Inr d"
proof -
  obtain piece where "index0 (py_split (CHR '','') location) = Inr piece"
    using index0_py_split by blast
  then show ?thesis by (simp add: get_location_data_def Let_def)
qed

lemma occurs_in_code: "occurs_in key s = py_in key s"
  by (simp add: py_in_iff)

text \<open>
  Claim C9. The location resolver returns for every input string (it never raises). With
  the input lower-cased, the region is chosen by substring tests in a fixed order: the
  St. Tammany data if \<open>st. tammany\<close> or \<open>st tammany\<close> occurs; otherwise the New Orleans
  data if \<open>new orleans\<close> or \<open>nola\<close> occurs; otherwise the Baton Rouge data if
  \<open>baton rouge\<close> occurs. When none occurs the result has the fallback bounding box and
  exactly three placeholder addresses, each ending in the input string as given.
\<close>

theorem get_location_data_total_first_match:
  fixes location :: string
  defines "l \<equiv> py_lower location"
  defines "tammany \<equiv> occurs_in ''st. tammany'' l \<or> occurs_in ''st tammany'' l"
  defines "orleans \<equiv> occurs_in ''new orleans'' l \<or> occurs_in ''nola'' l"
  defines "baton \<equiv> occurs_in ''baton rouge'' l"
  shows "\<exists>d. get_location_data location = Inr d \<and>
     (tammany \<longrightarrow> d = st_tammany_data) \<and>
     (\<not> tammany \<and> orleans \<longrightarrow> d = new_orleans_data) \<and>
     (\<not> tammany \<and> \<not> orleans \<and> baton \<longrightarrow> d = baton_rouge_data) \<and>
     (\<not> tammany \<and> \<not> orleans \<and> \<not> baton \<longrightarrow>
        bounds d = \<lparr>north = 30.5, south = 30.0, east = -90.0, west = -90.5\<rparr> \<and>
        map addr_address (addresses d) =
          [''1234 Main St, '' @ location, ''5678 Oak Ave, '' @ location,
           ''9012 Pine St, '' @ location])"
proof -
  obtain piece where "index0 (py_split (CHR '','') location) = Inr piece"
    using index0_py_split by blast
  then show ?thesis
    unfolding l_def tammany_def orleans_def baton_def
    by (simp add: get_location_data_def Let_def py_in_iff generic_data_def mk_addr_def)
qed

theorem get_location_data_total_first_match_witness:
  "(occurs_in ''nola'' (py_lower ''Visit NOLA, LA'') \<and>
    \<not> occurs_in ''st. tammany'' (py_lower ''Visit NOLA, LA'') \<and>
    \<not> occurs_in ''st tammany'' (py_lower ''Visit NOLA, LA'') \<and>
    get_location_data ''Visit NOLA, LA'' = Inr new_orleans_data) \<and>
   (occurs_in ''st tammany'' (py_lower ''Nola or St Tammany'') \<and>
    get_location_data ''Nola or St Tammany'' = Inr st_tammany_data) \<and>
   (occurs_in ''baton rouge'' (py_lower ''BATON ROUGE'') \<and>
    get_location_data ''BATON ROUGE'' = Inr baton_rouge_data) \<and>
   (\<exists>d. get_location_data ''Austin, TX'' = Inr d \<and>
      bounds d = \<lparr>north = 30.5, south = 30.0, east = -90.0, west = -90.5\<rparr> \<and>
      map addr_address (addresses d) =
        [''1234 Main St, Austin, TX'', ''5678 Oak Ave, Austin, TX'',
         ''9012 Pine St, Austin, TX''])"
  using get_location_data_total_first_match[of "''Visit NOLA, LA''"]
    get_location_data_total_first_match[of "''Nola or St Tammany''"]
    get_location_data_total_first_match[of "''BATON ROUGE''"]
    get_location_data_total_first_match[of "''Austin, TX''"]
  by (simp add: occurs_in_code py_lower_def lower_char_def char_of_def bit_0)

section \<open>The property generator\<close>

lemma returns_if_draw:
  "returns m P \<Longrightarrow> returns (if b then m else rreturn v) (\<lambda>x. if b then P x else x = v)"
  by (simp add: returns_rreturn)

lemma returns_rbind_rreturn:
  "returns m P \<Longrightarrow> returns (rbind m (\<lambda>x. rreturn (f x))) (\<lambda>y. \<exists>x. P x \<and> y = f x)"
  by (erule returns_rbind) (auto intro: returns_rreturn)

lemma returns_random_uniform_any: "returns (random_uniform a b) (\<lambda>_. True)"
  unfolding random_uniform_def
  by (rule returns_rbind[OF returns_random_random], rule returns_rreturn) simp

lemma roof_types_nonempty: "roof_types \<noteq> []"
  by (simp add: roof_types_def)

lemma round1_pos: "1 \<le> x \<Longrightarrow> 0 < round1 x"
  using round1_ge[of 1 x] by simp

lemma filled_record_made_for:
  assumes pc: "if hs then 15 \<le> pc \<and> pc \<le> 45 else pc = 0"
    and area: "if hs then 25 \<le> area \<and> area \<le> 75 else area = 0"
    and year: "if hs then \<exists>y. (2018 \<le> y \<and> y \<le> 2023) \<and> year = Some y else year = None"
    and sz: "if hs then \<exists>u. (5 \<le> u \<and> u \<le> 15) \<and> sz = round1 u else sz = 0"
    and savings: "if hs then 800 \<le> savings \<and> savings \<le> 2500 else savings = 0"
  shows "made_for i addr la lo hs
           \<lparr>property_id = ''PROP_'' @ format_06d (int i + 1),
            owner_name = ''Property Owner '' @ str_int (int i + 1),
            address = addr, latitude = la, longitude = lo, has_solar_panels = hs,
            estimated_panel_count = pc, panel_area_sq_meters = area,
            installation_year = year, system_size_kw = sz,
            estimated_savings_annual = savings, property_value = pvalue,
            roof_type = roof, roof_age_years = age\<rparr>"
proof (cases hs)
  case True
  with sz obtain u :: real where "5 \<le> u" and "sz = round1 u" by auto
  then have "0 < sz" by (simp add: round1_pos)
  with True pc area year savings show ?thesis
    by (auto simp: made_for_def solar_fields_consistent_def)
next
  case False
  with pc area year sz savings show ?thesis
    by (simp add: made_for_def solar_fields_consistent_def)
qed

lemma returns_fill_property:
  "returns (fill_property i addr la lo hs) (made_for i addr la lo hs)"
  unfolding fill_property_def
  apply (rule returns_rbind[OF returns_if_draw[OF returns_random_randint[of 15 45]]], simp)
  apply (rule returns_rbind[OF returns_if_draw[OF returns_random_uniform[of 25 75]]], simp)
  apply (rule returns_rbind[OF returns_if_draw[OF returns_rbind_rreturn[OF returns_random_randint[of 2018 2023]]]], simp)
  apply (rule returns_rbind[OF returns_if_draw[OF returns_rbind_rreturn[OF returns_random_uniform[of 5 15]]]], simp)
  apply (rule returns_rbind[OF returns_if_draw[OF returns_random_randint[of 800 2500]]], simp)
  apply (rule returns_rbind[OF returns_random_randint[of 200000 600000]], simp)
  apply (rule returns_rbind[OF returns_random_choice[OF roof_types_nonempty]])
  apply (rule returns_rbind[OF returns_random_randint[of 5 25]], simp)
  apply (rule returns_rreturn)
  apply (rule filled_record_made_for; assumption)
  done

lemma street_names_nonempty: "street_names \<noteq> []"
  by (simp add: street_names_def)

lemma returns_make_property:
  assumes "cities ld \<noteq> []"
  shows "returns (make_property ld i) (generated_at ld i)"
proof (cases "i < length (addresses ld)")
  case True
  then show ?thesis
    unfolding make_property_def Let_def
    by (simp, intro returns_weaken[OF returns_fill_property])
       (simp add: generated_at_def made_for_def)
next
  case False
  have fill: "returns (fill_property i addr la lo hs) (generated_at ld i)" for addr la lo hs
    using False
    by (intro returns_weaken[OF returns_fill_property])
       (simp add: generated_at_def made_for_def)
  from False show ?thesis
    unfolding make_property_def Let_def
    apply simp
    apply (rule returns_rbind[OF returns_random_uniform_any])
    apply (rule returns_rbind[OF returns_random_uniform_any])
    apply (rule returns_rbind[OF returns_random_random])
    apply (rule returns_rbind[OF returns_random_randint[of 100 9999]], simp)
    apply (rule returns_rbind[OF returns_random_choice[OF street_names_nonempty]])
    apply (rule returns_rbind[OF returns_random_choice[OF assms]])
    apply (rule fill)
    done
qed

lemma returns_generate_loop:
  assumes "cities ld \<noteq> []"
  shows "returns (generate_loop ld idxs acc)
           (\<lambda>ps. length ps = length acc + length idxs \<and>
                 (\<forall>k<length acc. ps ! k = acc ! k) \<and>
                 (\<forall>k<length idxs. generated_at ld (idxs ! k) (ps ! (length acc + k))))"
proof (induction idxs arbitrary: acc)
  case Nil
  show ?case by (simp add: returns_rreturn)
next
  case (Cons i rest)
  show ?case
    unfolding generate_loop.simps
  proof (rule returns_rbind[OF returns_make_property[OF assms]])
    fix p
    assume p: "generated_at ld i p"
    show "returns (generate_loop ld rest (acc @ [p]))
           (\<lambda>ps. length ps = length acc + length (i # rest) \<and>
                 (\<forall>k<length acc. ps ! k = acc ! k) \<and>
                 (\<forall>k<length (i # rest). generated_at ld ((i # rest) ! k) (ps ! (length acc + k))))"
    proof (rule returns_weaken[OF Cons.IH[of "acc @ [p]"]])
      fix ps
      assume h: "length ps = length (acc @ [p]) + length rest \<and>
                 (\<forall>k<length (acc @ [p]). ps ! k = (acc @ [p]) ! k) \<and>
                 (\<forall>k<length rest. generated_at ld (rest ! k) (ps ! (length (acc @ [p]) + k)))"
      have len: "length ps = length acc + length (i # rest)" using h by simp
      have old: "\<forall>k<length acc. ps ! k = acc ! k"
      proof (intro allI impI)
        fix k assume k: "k < length acc"
        then have "ps ! k = (acc @ [p]) ! k" using h by simp
        with k show "ps ! k = acc ! k" by (simp add: nth_append)
      qed
      have here: "ps ! length acc = p"
      proof -
        have "ps ! length acc = (acc @ [p]) ! length acc" using h by simp
        then show ?thesis by simp
      qed
      have new: "\<forall>k<length (i # rest). generated_at ld ((i # rest) ! k) (ps ! (length acc + k))"
      proof (intro allI impI)
        fix k assume k: "k < length (i # rest)"
        show "generated_at ld ((i # rest) ! k) (ps ! (length acc + k))"
        proof (cases k)
          case 0
          with p here show ?thesis by simp
        next
          case (Suc k')
          with k have "k' < length rest" by simp
          with h have "generated_at ld (rest ! k') (ps ! (length (acc @ [p]) + k'))" by blast
          with Suc show ?thesis by simp
        qed
      qed
      from len old new
      show "length ps = length acc + length (i # rest) \<and>
            (\<forall>k<length acc. ps ! k = acc ! k) \<and>
            (\<forall>k<length (i # rest). generated_at ld ((i # rest) ! k) (ps ! (length acc + k)))"
        by blast
    qed
  qed
qed

lemma get_location_data_cities:
  assumes "get_location_data location = Inr ld"
  shows "cities ld \<noteq> []"
proof -
  obtain piece where "index0 (py_split (CHR '','') location) = Inr piece"
    using index0_py_split by blast
  with assms show ?thesis
    by (auto simp: get_location_data_def Let_def st_tammany_data_def new_orleans_data_def
        baton_rouge_data_def generic_data_def split: if_splits)
qed

lemma generate_realistic_properties_returns:
  "\<exists>ld ps g'. get_location_data location = Inr ld \<and>
     generate_realistic_properties count location g = (Inr ps, g') \<and>
     length ps = nat count \<and> (\<forall>i<nat count. generated_at ld i (ps ! i))"
proof -
  obtain ld where ld: "get_location_data location = Inr ld"
    using get_location_data_returns by blast
  from returns_generate_loop[OF get_location_data_cities[OF ld], of "py_range count" "[]"]
  obtain ps g' where "generate_loop ld (py_range count) [] g = (Inr ps, g')"
    and "length ps = length (py_range count)"
    and "\<forall>k<length (py_range count). generated_at ld (py_range count ! k) (ps ! k)"
    unfolding returns_def by fastforce
  with ld show ?thesis
    by (auto simp: generate_realistic_properties_def py_range_def)
qed


lemma digits_value_snoc:
  "digits_value (s @ [c]) = digits_value s * 10 + (of_char c - 48)"
  by (simp add: digits_value_def)

lemma of_char_digit_char: "d < 10 \<Longrightarrow> of_char (digit_char d) - 48 = d"
  by (simp add: digit_char_def)

lemma digits_value_str_nat: "digits_value (str_nat n) = n"
proof (induction n rule: str_nat.induct)
  case (1 n)
  show ?case
  proof (cases "n < 10")
    case True
    then show ?thesis
      using digits_value_snoc[of "[]" "digit_char n"]
      by (simp add: str_nat.simps[of n] of_char_digit_char digits_value_def)
  next
    case False
    with 1 have "digits_value (str_nat (n div 10)) = n div 10" by simp
    with False show ?thesis
      by (simp add: str_nat.simps[of n] digits_value_snoc of_char_digit_char)
  qed
qed

lemma digits_value_zeros: "digits_value (replicate k (CHR ''0'') @ s) = digits_value s"
  by (induction k) (simp_all add: digits_value_def)

lemma digits_value_format_06d: "0 \<le> i \<Longrightarrow> digits_value (format_06d i) = nat i"
  by (simp add: format_06d_def Let_def digits_value_zeros digits_value_str_nat)

lemma str_nat_digit: "n < 10 \<Longrightarrow> str_nat n = [digit_char n]"
  by (simp add: str_nat.simps[of n])

lemma format_06d_examples:
  "format_06d 1 = ''000001''" "format_06d 2 = ''000002''" "format_06d 3 = ''000003''"
  by (simp_all add: format_06d_def str_nat_digit digit_char_def char_of_def bit_0)
     (simp_all add: eval_nat_numeral)

lemma str_int_examples: "str_int 1 = ''1''" "str_int 2 = ''2''"
  by (simp_all add: str_int_def str_nat_digit digit_char_def char_of_def bit_0)

lemma get_location_data_austin:
  "get_location_data ''Austin, TX'' = Inr (generic_data ''Austin, TX'' ''Austin'')"
  by (simp add: get_location_data_def py_lower_def lower_char_def char_of_def bit_0
      index0_def py_split_def)

lemmas rand_defs = rbind_def rreturn_def rraise_def draw_def random_random_def
  random_uniform_def random_randint_def random_choice_def

lemma generate_austin:
  "generate_realistic_properties 2 ''Austin, TX'' zero_rng =
     (Inr [austin_first, austin_second], zero_rng)"
  by (simp add: generate_realistic_properties_def get_location_data_austin py_range_def
      generic_data_def mk_addr_def make_property_def fill_property_def rand_defs zero_rng_def upt_rec
      roof_types_def round1_def py_round_def Let_def austin_first_def austin_second_def
      format_06d_examples str_int_examples)

text \<open>
  Claim C3. For every count that is not negative and every location string the generator
  returns a list of exactly \<open>count\<close> records; the record at index \<open>i\<close> has the identifier
  \<open>PROP_\<close> followed by \<open>i + 1\<close> printed with at least six digits, and the identifiers of
  one run are pairwise distinct.
\<close>

theorem generate_count_and_ids:
  assumes "0 \<le> count"
  shows "\<exists>ps g'. generate_realistic_properties count location g = (Inr ps, g') \<and>
     int (length ps) = count \<and>
     (\<forall>i<length ps. property_id (ps ! i) = ''PROP_'' @ format_06d (int i + 1)) \<and>
     distinct (map property_id ps)"
proof -
  obtain ld ps g' where run: "generate_realistic_properties count location g = (Inr ps, g')"
    and len: "length ps = nat count"
    and gen: "\<forall>i<nat count. generated_at ld i (ps ! i)"
    using generate_realistic_properties_returns by blast
  have ids: "\<forall>i<length ps. property_id (ps ! i) = ''PROP_'' @ format_06d (int i + 1)"
    using gen len by (simp add: generated_at_def)
  have "distinct (map property_id ps)"
    unfolding distinct_conv_nth
  proof (intro allI impI)
    fix i j
    assume i: "i < length (map property_id ps)" and j: "j < length (map property_id ps)"
      and ne: "i \<noteq> j"
    show "map property_id ps ! i \<noteq> map property_id ps ! j"
    proof
      assume "map property_id ps ! i = map property_id ps ! j"
      with i j ids have "format_06d (int i + 1) = format_06d (int j + 1)" by simp
      then have "digits_value (format_06d (int i + 1)) = digits_value (format_06d (int j + 1))"
        by simp
      then have "i = j" by (simp add: digits_value_format_06d)
      with ne show False by simp
    qed
  qed
  with run len ids assms show ?thesis by auto
qed

theorem generate_count_and_ids_witness:
  "(0::int) \<le> 3 \<and>
   (\<exists>ps g'. generate_realistic_properties 3 ''Austin, TX'' zero_rng = (Inr ps, g') \<and>
      length ps = 3 \<and>
      property_id (ps ! 0) = ''PROP_000001'' \<and> property_id (ps ! 1) = ''PROP_000002'' \<and>
      property_id (ps ! 2) = ''PROP_000003'' \<and> distinct (map property_id ps))"
proof -
  have c: "(0::int) \<le> 3" by simp
  from generate_count_and_ids[OF c, of "''Austin, TX''" zero_rng]
  obtain ps g' where run: "generate_realistic_properties 3 ''Austin, TX'' zero_rng = (Inr ps, g')"
    and len: "int (length ps) = 3"
    and ids: "\<forall>i<length ps. property_id (ps ! i) = ''PROP_'' @ format_06d (int i + 1)"
    and dist: "distinct (map property_id ps)"
    by blast
  from len have l: "length ps = 3" by simp
  from ids l have "property_id (ps ! 0) = ''PROP_'' @ format_06d (int 0 + 1)"
    and "property_id (ps ! 1) = ''PROP_'' @ format_06d (int 1 + 1)"
    and "property_id (ps ! 2) = ''PROP_'' @ format_06d (int 2 + 1)"
    by simp_all
  then have "property_id (ps ! 0) = ''PROP_000001''" and "property_id (ps ! 1) = ''PROP_000002''"
    and "property_id (ps ! 2) = ''PROP_000003''"
    by (simp_all add: format_06d_examples)
  with c run l dist show ?thesis by blast
qed

text \<open>
  Claim C4. For every index \<open>i\<close> below the number of curated addresses of the resolved
  location (and below the count, so that there is a record at \<open>i\<close>), the generated
  record at position \<open>i\<close> has the address, latitude, longitude and solar flag of the curated
  entry at position \<open>i\<close>.
\<close>

theorem generate_curated_prefix:
  "\<exists>ld ps g'. get_location_data location = Inr ld \<and>
     generate_realistic_properties count location g = (Inr ps, g') \<and>
     length ps = nat count \<and>
     (\<forall>i. i < length (addresses ld) \<and> i < length ps \<longrightarrow>
        address (ps ! i) = addr_address (addresses ld ! i) \<and>
        latitude (ps ! i) = addr_lat (addresses ld ! i) \<and>
        longitude (ps ! i) = addr_lon (addresses ld ! i) \<and>
        has_solar_panels (ps ! i) = addr_has_solar (addresses ld ! i))"
proof -
  obtain ld ps g' where "get_location_data location = Inr ld"
    and "generate_realistic_properties count location g = (Inr ps, g')"
    and "length ps = nat count"
    and "\<forall>i<nat count. generated_at ld i (ps ! i)"
    using generate_realistic_properties_returns by blast
  then show ?thesis
    by (intro exI[of _ ld] exI[of _ ps] exI[of _ g']) (simp add: generated_at_def)
qed

theorem generate_curated_prefix_witness:
  "\<exists>ps g'. generate_realistic_properties 2 ''Austin, TX'' zero_rng = (Inr ps, g') \<and>
     (1::nat) < length (addresses (generic_data ''Austin, TX'' ''Austin'')) \<and>
     1 < length ps \<and>
     address (ps ! 1) = ''5678 Oak Ave, Austin, TX'' \<and>
     latitude (ps ! 1) = 30.41 \<and> longitude (ps ! 1) = -90.11 \<and>
     \<not> has_solar_panels (ps ! 1)"
  using generate_curated_prefix[of "''Austin, TX''" 2 zero_rng]
  by (simp add: get_location_data_austin) (auto simp: generic_data_def mk_addr_def)

text \<open>
  Claim C5. The generator returns, and every record it returns with \<open>has_solar_panels\<close>
  false has panel count, panel area, system size and annual savings 0 and no installation
  year, while every record with \<open>has_solar_panels\<close> true has all of them non-zero and an
  installation year: the solar-installed fields are populated exactly when the flag is
  set.
\<close>

theorem generate_solar_fields_gated:
  "\<exists>ps g'. generate_realistic_properties count location g = (Inr ps, g') \<and>
     (\<forall>p \<in> set ps.
        (\<not> has_solar_panels p \<longrightarrow>
           estimated_panel_count p = 0 \<and> panel_area_sq_meters p = 0 \<and>
           system_size_kw p = 0 \<and> estimated_savings_annual p = 0 \<and>
           installation_year p = None) \<and>
        (has_solar_panels p \<longrightarrow>
           estimated_panel_count p \<noteq> 0 \<and> panel_area_sq_meters p \<noteq> 0 \<and>
           system_size_kw p \<noteq> 0 \<and> estimated_savings_annual p \<noteq> 0 \<and>
           installation_year p \<noteq> None))"
proof -
  obtain ld ps g' where run: "generate_realistic_properties count location g = (Inr ps, g')"
    and len: "length ps = nat count"
    and gen: "\<forall>i<nat count. generated_at ld i (ps ! i)"
    using generate_realistic_properties_returns by blast
  have "solar_fields_consistent p" if "p \<in> set ps" for p
  proof -
    from that obtain i where "i < length ps" and "ps ! i = p"
      by (auto simp: in_set_conv_nth)
    with gen len show ?thesis by (auto simp: generated_at_def)
  qed
  with run show ?thesis
    by (intro exI[of _ ps] exI[of _ g']) (auto simp: solar_fields_consistent_def)
qed

theorem generate_solar_fields_gated_witness:
  "austin_second \<in> set [austin_first, austin_second] \<and> \<not> has_solar_panels austin_second \<and>
   estimated_panel_count austin_second = 0 \<and> panel_area_sq_meters austin_second = 0 \<and>
   system_size_kw austin_second = 0 \<and> estimated_savings_annual austin_second = 0 \<and>
   installation_year austin_second = None \<and>
   austin_first \<in> set [austin_first, austin_second] \<and> has_solar_panels austin_first \<and>
   estimated_panel_count austin_first \<noteq> 0 \<and> installation_year austin_first \<noteq> None"
proof -
  from generate_solar_fields_gated[of 2 "''Austin, TX''" zero_rng]
  have all: "\<forall>p \<in> set [austin_first, austin_second].
        (\<not> has_solar_panels p \<longrightarrow>
           estimated_panel_count p = 0 \<and> panel_area_sq_meters p = 0 \<and>
           system_size_kw p = 0 \<and> estimated_savings_annual p = 0 \<and>
           installation_year p = None) \<and>
        (has_solar_panels p \<longrightarrow>
           estimated_panel_count p \<noteq> 0 \<and> panel_area_sq_meters p \<noteq> 0 \<and>
           system_size_kw p \<noteq> 0 \<and> estimated_savings_annual p \<noteq> 0 \<and>
           installation_year p \<noteq> None)"
    by (simp add: generate_austin)
  have no: "\<not> has_solar_panels austin_second" by (simp add: austin_second_def)
  have yes: "has_solar_panels austin_first" by (simp add: austin_first_def)
  from all no yes show ?thesis by simp
qed

section \<open>The image fetcher\<close>

lemma str_int_19: "str_int 19 = ''19''"
  by (simp add: str_int_def str_nat.simps[of 19] str_nat_digit digit_char_def char_of_def bit_0)

text \<open>
  Claim C6, as stated, fails: it promises the file path on every HTTP 200 response, but
  opening and writing the file happen inside the same \<^verbatim>\<open>try\<close> block, so a response
  with status 200 whose image cannot be written yields \<^verbatim>\<open>None\<close>.
\<close>

theorem download_house_image_write_failure:
  "requests_get fetch_write_fails = Inr ok_response \<and> status_code ok_response = 200 \<and>
   download_house_image sample_detector sample_float_str fetch_write_fails 30.4 (-90.1) 19
     = Inr None \<and>
   download_house_image sample_detector sample_float_str fetch_write_fails 30.4 (-90.1) 19
     \<noteq> Inr (Some ''solar_houses_output/house_images/house_30.4_-90.1_zoom19.png'')"
  by (simp add: download_house_image_def download_try_def fetch_write_fails_def ok_response_def)

text \<open>
  Claim C6, amended. The image fetcher never raises. It returns the path
  \<open>output_dir/house_images/house_{lat}_{lon}_zoom{z}.png\<close> exactly when the response has
  status 200 and the file is written; on any other status, on any exception of the
  request, and on any exception while writing the file, it returns \<^verbatim>\<open>None\<close>.
\<close>

theorem download_house_image_never_raises:
  "\<exists>r. download_house_image self fstr io lat lon zoom_level = Inr r \<and>
     (case requests_get io of
        Inl e \<Rightarrow> r = None
      | Inr resp \<Rightarrow>
          if status_code resp = 200
          then (case file_write io of
                  None \<Rightarrow> r = Some (output_dir self @ ''/house_images/house_'' @ fstr lat @ ''_''
                                    @ fstr lon @ ''_zoom'' @ str_int zoom_level @ ''.png'')
                | Some e \<Rightarrow> r = None)
          else r = None)"
  by (simp add: download_house_image_def download_try_def Let_def
      split: sum.splits option.splits)

theorem download_house_image_never_raises_witness:
  "download_house_image sample_detector sample_float_str fetch_ok 30.4 (-90.1) 19
     = Inr (Some ''solar_houses_output/house_images/house_30.4_-90.1_zoom19.png'') \<and>
   download_house_image sample_detector sample_float_str fetch_not_found 30.4 (-90.1) 19 = Inr None \<and>
   download_house_image sample_detector sample_float_str fetch_timeout 30.4 (-90.1) 19 = Inr None \<and>
   download_house_image sample_detector sample_float_str fetch_write_fails 30.4 (-90.1) 19 = Inr None"
  using download_house_image_never_raises[of sample_detector sample_float_str fetch_ok "30.4" "-90.1" 19]
    download_house_image_never_raises[of sample_detector sample_float_str fetch_not_found "30.4" "-90.1" 19]
    download_house_image_never_raises[of sample_detector sample_float_str fetch_timeout "30.4" "-90.1" 19]
    download_house_image_never_raises[of sample_detector sample_float_str fetch_write_fails "30.4" "-90.1" 19]
  by (simp add: fetch_ok_def fetch_not_found_def fetch_timeout_def fetch_write_fails_def
      ok_response_def not_found_response_def sample_detector_def sample_float_str_def str_int_19)

section \<open>The orchestrator\<close>

lemma combine_result_image_fields:
  "combine_result p hip a now ''house_image_path'' =
     Some (case hip of None \<Rightarrow> PNone | Some s \<Rightarrow> PStr s)"
  "combine_result p hip a now ''image_downloaded'' = Some (PBool (hip \<noteq> None))"
  by (simp_all add: combine_result_def analysis_items_def map_add_def)

lemma download_house_image_returns:
  "\<exists>r. download_house_image self fstr io lat lon zoom_level = Inr r"
  by (simp add: download_house_image_def split: sum.splits)

lemma returns_process_one:
  "returns (process_one self w i p)
     (\<lambda>r. \<exists>hip a.
        download_house_image self (float_str w) (fetch_at w i) (latitude p) (longitude p) 19
          = Inr hip \<and>
        r = combine_result p hip a (now_iso w i))"
proof -
  obtain hip where hip:
    "download_house_image self (float_str w) (fetch_at w i) (latitude p) (longitude p) 19
       = Inr hip"
    using download_house_image_returns by blast
  have "returns (rbind (analyze_solar_potential p)
          (\<lambda>a. rreturn (combine_result p hip a (now_iso w i))))
          (\<lambda>r. \<exists>a. True \<and> r = combine_result p hip a (now_iso w i))"
    by (rule returns_rbind_rreturn[OF returns_analyze_solar_potential])
  then show ?thesis
    by (simp add: process_one_def hip)
qed

lemma process_loop_all:
  assumes "\<And>i p. (i, p) \<in> set ips \<Longrightarrow> returns (process_one self w i p) (Q i)"
  shows "\<exists>new. fst (process_loop self w ips acc g) = acc @ new \<and>
           length new = length ips \<and>
           (\<forall>k<length ips. Q (fst (ips ! k)) (new ! k))"
  using assms
proof (induction ips arbitrary: acc g)
  case Nil
  show ?case by simp
next
  case (Cons ip rest)
  obtain i p where ip: "ip = (i, p)" by (cases ip)
  from Cons.prems[of i p] ip have "returns (process_one self w i p) (Q i)" by simp
  then obtain r g' where
    one: "process_one self w i p g = (Inr r, g')" and q: "Q i r"
    unfolding returns_def by blast
  have "\<And>j q. (j, q) \<in> set rest \<Longrightarrow> returns (process_one self w j q) (Q j)"
    using Cons.prems by simp
  from Cons.IH[OF this, of "acc @ [r]" g']
  obtain new where new: "fst (process_loop self w rest (acc @ [r]) g') = (acc @ [r]) @ new"
    and len: "length new = length rest"
    and all: "\<forall>k<length rest. Q (fst (rest ! k)) (new ! k)"
    by blast
  have run: "fst (process_loop self w (ip # rest) acc g) = acc @ (r # new)"
    using one new by (simp add: ip)
  have "\<forall>k<length (ip # rest). Q (fst ((ip # rest) ! k)) ((r # new) ! k)"
  proof (intro allI impI)
    fix k assume "k < length (ip # rest)"
    then show "Q (fst ((ip # rest) ! k)) ((r # new) ! k)"
      using q all ip by (cases k) simp_all
  qed
  with run len show ?case
    by (intro exI[of _ "r # new"]) simp
qed

lemma fst_enumerate_nth: "k < length xs \<Longrightarrow> fst (enumerate 0 xs ! k) = k"
  by (simp add: nth_enumerate_eq)

lemma process_loop_results:
  "\<exists>rs. fst (process_loop self w (enumerate 0 ps) [] g) = rs \<and> length rs = length ps \<and>
     (\<forall>k<length ps. \<exists>hip a.
        download_house_image self (float_str w) (fetch_at w k)
          (latitude (ps ! k)) (longitude (ps ! k)) 19 = Inr hip \<and>
        rs ! k = combine_result (ps ! k) hip a (now_iso w k))"
proof -
  let ?Q = "\<lambda>i r. i < length ps \<and> (\<exists>hip a.
        download_house_image self (float_str w) (fetch_at w i)
          (latitude (ps ! i)) (longitude (ps ! i)) 19 = Inr hip \<and>
        r = combine_result (ps ! i) hip a (now_iso w i))"
  have "returns (process_one self w i p) (?Q i)" if "(i, p) \<in> set (enumerate 0 ps)" for i p
  proof -
    from that have "i < length ps" and "ps ! i = p"
      by (auto simp: in_set_enumerate_eq)
    then show ?thesis
      by (intro returns_weaken[OF returns_process_one[of self w i p]]) auto
  qed
  from process_loop_all[of "enumerate 0 ps" self w ?Q "[]" g, OF this]
  obtain new where "fst (process_loop self w (enumerate 0 ps) [] g) = new"
    and "length new = length ps"
    and "\<forall>k<length ps. ?Q (fst (enumerate 0 ps ! k)) (new ! k)"
    by auto
  then show ?thesis
    by (intro exI[of _ new]) (simp add: fst_enumerate_nth)
qed


lemma process_properties_mixed:
  "process_properties sample_detector mixed_world 2 ''Austin, TX'' zero_rng =
     (Inr [mixed_first_result, mixed_second_result],
      [ToCsv ''solar_houses_output/data/solar_houses_results.csv'',
       ToCsv ''solar_houses_output/data/solar_houses_summary.csv'',
       GenerateReports, CreateInteractiveMap])"
  unfolding mixed_first_result_def mixed_second_result_def
  by (simp add: process_properties_def generate_austin)
     (simp add: Let_def process_one_def download_house_image_def download_try_def
      mixed_world_def fetch_ok_def fetch_timeout_def ok_response_def sample_detector_def
      sample_float_str_def str_int_19 austin_first_def austin_second_def
      analyze_solar_potential_def rand_defs zero_rng_def py_truediv_def round1_def
      py_round_def base_score_def dict_get_def roof_bonus_def generate_reports_def
      create_interactive_map_def)

text \<open>
  Claim C7. In a run of \<open>n\<close> properties in which the image fetch returns \<^verbatim>\<open>None\<close>
  for every property and no output step raises, the orchestrator returns a result
  collection of exactly \<open>n\<close> entries, each with \<open>image_downloaded\<close> false and
  \<open>house_image_path\<close> \<^verbatim>\<open>None\<close>: a failed fetch never removes a property.
\<close>

theorem process_properties_fetch_failures_kept:
  assumes n: "0 \<le> n"
    and stub: "\<forall>i<nat n. \<forall>lat lon.
       download_house_image self (float_str w) (fetch_at w i) lat lon 19 = Inr None"
    and out: "results_csv_io w = None" "summary_csv_io w = None" "report_io w = None"
  shows "\<exists>rs steps. process_properties self w n location g = (Inr rs, steps) \<and>
     int (length rs) = n \<and>
     (\<forall>r \<in> set rs. r ''image_downloaded'' = Some (PBool False) \<and>
                    r ''house_image_path'' = Some PNone)"
proof -
  obtain ld ps g' where run: "generate_realistic_properties n location g = (Inr ps, g')"
    and len: "length ps = nat n"
    using generate_realistic_properties_returns by blast
  obtain rs where loop: "fst (process_loop self w (enumerate 0 ps) [] g') = rs"
    and lrs: "length rs = length ps"
    and each: "\<forall>k<length ps. \<exists>hip a.
        download_house_image self (float_str w) (fetch_at w k)
          (latitude (ps ! k)) (longitude (ps ! k)) 19 = Inr hip \<and>
        rs ! k = combine_result (ps ! k) hip a (now_iso w k)"
    using process_loop_results[of self w ps g'] by blast
  have ret: "\<exists>steps. process_properties self w n location g = (Inr rs, steps)"
    using run loop out
    by (simp add: process_properties_def Let_def generate_reports_def)
  have img: "r ''image_downloaded'' = Some (PBool False) \<and> r ''house_image_path'' = Some PNone"
    if "r \<in> set rs" for r
  proof -
    from that obtain k where k: "k < length rs" and r: "rs ! k = r"
      by (auto simp: in_set_conv_nth)
    with each lrs obtain hip a where
      d: "download_house_image self (float_str w) (fetch_at w k)
            (latitude (ps ! k)) (longitude (ps ! k)) 19 = Inr hip"
      and c: "rs ! k = combine_result (ps ! k) hip a (now_iso w k)"
      by auto
    from stub k lrs len d have "hip = None" by simp
    with c r show ?thesis by (simp add: combine_result_image_fields)
  qed
  from ret img lrs len n show ?thesis by auto
qed

theorem process_properties_fetch_failures_kept_witness:
  "(0::int) \<le> 2 \<and>
   download_house_image sample_detector (float_str failing_world)
     (fetch_at failing_world 0) 30.4 (-90.1) 19 = Inr None \<and>
   download_house_image sample_detector (float_str failing_world)
     (fetch_at failing_world 1) 30.41 (-90.11) 19 = Inr None \<and>
   results_csv_io failing_world = None \<and> summary_csv_io failing_world = None \<and>
   report_io failing_world = None \<and>
   (\<exists>r1 r2 steps.
      process_properties sample_detector failing_world 2 ''Austin, TX'' zero_rng
        = (Inr [r1, r2], steps) \<and>
      r1 ''image_downloaded'' = Some (PBool False) \<and> r1 ''house_image_path'' = Some PNone \<and>
      r2 ''image_downloaded'' = Some (PBool False) \<and> r2 ''house_image_path'' = Some PNone)"
proof -
  have n: "(0::int) \<le> 2" by simp
  have stub: "\<forall>i<nat 2. \<forall>lat lon.
       download_house_image sample_detector (float_str failing_world)
         (fetch_at failing_world i) lat lon 19 = Inr None"
    by (simp add: failing_world_def download_house_image_def download_try_def
        fetch_not_found_def not_found_response_def)
  have out: "results_csv_io failing_world = None" "summary_csv_io failing_world = None"
    "report_io failing_world = None"
    by (simp_all add: failing_world_def)
  from process_properties_fetch_failures_kept[OF n stub out, of "''Austin, TX''" zero_rng]
  obtain rs steps where
    run: "process_properties sample_detector failing_world 2 ''Austin, TX'' zero_rng
            = (Inr rs, steps)"
    and len: "int (length rs) = 2"
    and img: "\<forall>r \<in> set rs. r ''image_downloaded'' = Some (PBool False) \<and>
                r ''house_image_path'' = Some PNone"
    by blast
  from len have "length rs = Suc (Suc 0)" by simp
  then obtain r1 r2 where rs: "rs = [r1, r2]"
    by (auto simp: length_Suc_conv)
  from stub have "download_house_image sample_detector (float_str failing_world)
       (fetch_at failing_world 0) 30.4 (-90.1) 19 = Inr None"
    and "download_house_image sample_detector (float_str failing_world)
       (fetch_at failing_world 1) 30.41 (-90.11) 19 = Inr None"
    by simp_all
  with n out run img rs show ?thesis by auto
qed

text \<open>
  Claim C8. Run with \<open>max_properties = 0\<close>, the orchestrator returns the empty result
  collection without raising, and starts none of the output steps: no CSV file is
  written, and neither the report generation nor the map generation is called.
\<close>

theorem process_properties_zero: "process_properties self w 0 location g = (Inr [], [])"
proof -
  obtain ld where "get_location_data location = Inr ld"
    using get_location_data_returns by blast
  then show ?thesis
    by (simp add: process_properties_def generate_realistic_properties_def py_range_def
        rreturn_def)
qed


theorem process_properties_zero_witness:
  "process_properties sample_detector failing_world 0 ''Austin, TX'' zero_rng = (Inr [], [])"
  using process_properties_zero[of sample_detector failing_world "''Austin, TX''" zero_rng]
  by simp

text \<open>
  Claim C10. In every entry of a result collection the orchestrator returns,
  \<open>image_downloaded\<close> is a boolean that is true exactly when \<open>house_image_path\<close> is not
  \<^verbatim>\<open>None\<close>.
\<close>

theorem process_properties_image_flag_consistent:
  assumes "process_properties self w n location g = (Inr rs, steps)" and "r \<in> set rs"
  shows "\<exists>b v. r ''image_downloaded'' = Some (PBool b) \<and> r ''house_image_path'' = Some v \<and>
           (b \<longleftrightarrow> v \<noteq> PNone)"
proof -
  obtain ld ps g' where run: "generate_realistic_properties n location g = (Inr ps, g')"
    using generate_realistic_properties_returns by blast
  obtain rs' where loop: "fst (process_loop self w (enumerate 0 ps) [] g') = rs'"
    and lrs: "length rs' = length ps"
    and each: "\<forall>k<length ps. \<exists>hip a.
        download_house_image self (float_str w) (fetch_at w k)
          (latitude (ps ! k)) (longitude (ps ! k)) 19 = Inr hip \<and>
        rs' ! k = combine_result (ps ! k) hip a (now_iso w k)"
    using process_loop_results[of self w ps g'] by blast
  from assms(1) run loop have "rs = rs'"
    by (auto simp: process_properties_def Let_def split: if_splits option.splits sum.splits)
  with assms(2) obtain k where k: "k < length rs'" and r: "rs' ! k = r"
    by (auto simp: in_set_conv_nth)
  with each lrs obtain hip a where c: "r = combine_result (ps ! k) hip a (now_iso w k)"
    by auto
  show ?thesis
    by (cases hip) (auto simp: c combine_result_image_fields)
qed

theorem process_properties_image_flag_consistent_witness:
  "process_properties sample_detector mixed_world 2 ''Austin, TX'' zero_rng =
     (Inr [mixed_first_result, mixed_second_result],
      [ToCsv ''solar_houses_output/data/solar_houses_results.csv'',
       ToCsv ''solar_houses_output/data/solar_houses_summary.csv'',
       GenerateReports, CreateInteractiveMap]) \<and>
   mixed_first_result \<in> set [mixed_first_result, mixed_second_result] \<and>
   mixed_first_result ''house_image_path''
     = Some (PStr ''solar_houses_output/house_images/house_30.4_-90.1_zoom19.png'') \<and>
   mixed_first_result ''image_downloaded'' = Some (PBool True) \<and>
   mixed_second_result \<in> set [mixed_first_result, mixed_second_result] \<and>
   mixed_second_result ''house_image_path'' = Some PNone \<and>
   mixed_second_result ''image_downloaded'' = Some (PBool False)"
proof -
  note run = process_properties_mixed
  have p1: "mixed_first_result ''house_image_path''
     = Some (PStr ''solar_houses_output/house_images/house_30.4_-90.1_zoom19.png'')"
    by (simp add: mixed_first_result_def combine_result_image_fields)
  have p2: "mixed_second_result ''house_image_path'' = Some PNone"
    by (simp add: mixed_second_result_def combine_result_image_fields)
  have m1: "mixed_first_result \<in> set [mixed_first_result, mixed_second_result]" by simp
  have m2: "mixed_second_result \<in> set [mixed_first_result, mixed_second_result]" by simp
  from process_properties_image_flag_consistent[OF run m1] p1
  have f1: "mixed_first_result ''image_downloaded'' = Some (PBool True)" by auto
  from process_properties_image_flag_consistent[OF run m2] p2
  have f2: "mixed_second_result ''image_downloaded'' = Some (PBool False)" by auto
  from run p1 p2 m1 m2 f1 f2 show ?thesis by blast
qed


end
